theory Spec2Isabelle
  imports Main
begin

section \<open>Python strings\<close>

text \<open>
  A Python \<^verbatim>\<open>str\<close> is modelled as a \<^typ>\<open>string\<close> whose characters stand for the
  code points below 256. The character classes below are Python's own on that range:
  \<^verbatim>\<open>str.strip()\<close> removes the characters for which \<^verbatim>\<open>str.isspace()\<close> holds
  (9..13, 28..32, 133 and 160), \<^verbatim>\<open>str.isdigit()\<close> holds for the ASCII digits and for the
  superscripts 178, 179 and 185, and \<^verbatim>\<open>str.lower()\<close> maps A..Z and the Latin-1 capitals
  192..222 (without the multiplication sign 215) to the character 32 places further.
\<close>

definition isspace :: "char \<Rightarrow> bool" where
  "isspace c =
     (let n = (of_char c :: nat)
      in (9 \<le> n \<and> n \<le> 13) \<or> (28 \<le> n \<and> n \<le> 32) \<or> n = 133 \<or> n = 160)"

definition isdigit :: "char \<Rightarrow> bool" where
  "isdigit c =
     (let n = (of_char c :: nat)
      in (48 \<le> n \<and> n \<le> 57) \<or> n = 178 \<or> n = 179 \<or> n = 185)"

definition lower_char :: "char \<Rightarrow> char" where
  "lower_char c =
     (let n = (of_char c :: nat)
      in if (65 \<le> n \<and> n \<le> 90) \<or> (192 \<le> n \<and> n \<le> 222 \<and> n \<noteq> 215)
         then char_of (n + 32) else c)"

definition lower :: "string \<Rightarrow> string" where
  "lower s = map lower_char s"

definition lstrip :: "string \<Rightarrow> string" where
  "lstrip s = dropWhile isspace s"

definition rstrip :: "string \<Rightarrow> string" where
  "rstrip s = rev (dropWhile isspace (rev s))"

definition strip :: "string \<Rightarrow> string" where
  "strip s = rstrip (lstrip s)"

text \<open>
  \<^verbatim>\<open>s.split('\n')\<close>: the pieces between line feeds, empty pieces kept, always at least
  one piece. The first argument collects the current piece in reverse.
\<close>

fun split_acc :: "string \<Rightarrow> string \<Rightarrow> string list" where
  "split_acc cur [] = [rev cur]"
| "split_acc cur (c # cs) =
     (if c = CHR 0x0A then rev cur # split_acc [] cs else split_acc (c # cur) cs)"

definition split_lines :: "string \<Rightarrow> string list" where
  "split_lines s = split_acc [] s"

text \<open>\<^verbatim>\<open>str(n)\<close> for an integer: decimal digits, a minus sign for a negative number.\<close>

definition digit_char :: "nat \<Rightarrow> char" where
  "digit_char d = char_of (48 + d)"

function str_nat :: "nat \<Rightarrow> string" where
  "str_nat n = (if n < 10 then [digit_char n] else str_nat (n div 10) @ [digit_char (n mod 10)])"
  by pat_completeness auto
termination
  by (relation "measure id") auto

declare str_nat.simps [simp del]

definition str_int :: "int \<Rightarrow> string" where
  "str_int i = (if i < 0 then CHR ''-'' # str_nat (nat (- i)) else str_nat (nat i))"

section \<open>Launch: choosing the version and assembling the options\<close>

text \<open>
  The installed versions are the ids \<^verbatim>\<open>v\<close> for which
  \<^verbatim>\<open>os.path.exists(os.path.join(self.versions_dir, v, f"{v}.json"))\<close> holds; the model
  takes that set as a parameter.

  \<^verbatim>\<open>launch_version_of\<close> is the block "Determine which version to launch" of
  \<^verbatim>\<open>launch\<close>: with a mod loader other than vanilla, the first installed one of
  \<^verbatim>\<open>f"{mod_loader}-{version}"\<close> and \<^verbatim>\<open>f"{version}-{mod_loader}"\<close>, else the version itself.
\<close>

definition possible_versions :: "string \<Rightarrow> string \<Rightarrow> string list" where
  "possible_versions mod_loader version =
     [mod_loader @ ''-'' @ version, version @ ''-'' @ mod_loader]"

fun first_installed :: "string set \<Rightarrow> string list \<Rightarrow> string \<Rightarrow> string" where
  "first_installed installed [] launch_version = launch_version"
| "first_installed installed (poss_version # rest) launch_version =
     (if poss_version \<in> installed then poss_version
      else first_installed installed rest launch_version)"

definition launch_version_of :: "string set \<Rightarrow> string \<Rightarrow> string \<Rightarrow> string" where
  "launch_version_of installed mod_loader version =
     (if mod_loader \<noteq> ''vanilla''
      then first_installed installed (possible_versions mod_loader version) version
      else version)"

text \<open>
  The JVM arguments: the two memory flags, then the lines of the text widget
  (\<^verbatim>\<open>self.jvm_text_widget.get("1.0", tk.END)\<close>), where the whole text is stripped first and
  each line is stripped and kept when something is left.
\<close>

definition memory_flags :: "int \<Rightarrow> string list" where
  "memory_flags ram_mb =
     [''-Xmx'' @ str_int ram_mb @ ''M'', ''-Xms'' @ str_int (ram_mb div 2) @ ''M'']"

definition custom_lines :: "string \<Rightarrow> string list" where
  "custom_lines s = map strip (filter (\<lambda>arg. strip arg \<noteq> []) (split_lines s))"

definition jvm_arguments :: "int \<Rightarrow> string \<Rightarrow> string list" where
  "jvm_arguments ram_mb widget_text =
     (let jvm_args = memory_flags ram_mb;
          custom_args = strip widget_text
      in if custom_args \<noteq> [] then jvm_args @ custom_lines custom_args else jvm_args)"

section \<open>The settings document and the launcher's state\<close>

text \<open>
  A JSON value as \<^verbatim>\<open>json.load\<close> returns it (numbers restricted to integers); an object
  keeps its keys in insertion order, as a Python \<^verbatim>\<open>dict\<close> does. The settings document
  itself (\<^verbatim>\<open>self.settings\<close>) is a map from keys to values.
\<close>

datatype json =
  JNull
| JBool bool
| JInt int
| JStr string
| JList "json list"
| JObj "(string \<times> json) list"

type_synonym document = "string \<rightharpoonup> json"

definition settings_file :: string where
  "settings_file = ''launcher_settings.json''"

text \<open>
  The attributes of \<^verbatim>\<open>MinecraftLauncher\<close> that hold settings. An attribute read back from
  the document by \<^verbatim>\<open>self.settings.get\<close> has whatever JSON value the document gave it, so
  these are \<^typ>\<open>json\<close> values. \<^verbatim>\<open>favorite_versions\<close> is a Python set, listed here in the
  order \<^verbatim>\<open>list(...)\<close> gives; \<^verbatim>\<open>recent_versions\<close> is the list of version ids.
  \<^verbatim>\<open>files\<close> is the part of the file system the launcher writes JSON documents to.
\<close>

record launcher =
  settings :: document
  selected_version :: json
  selected_mod_loader :: json
  java_path :: json
  allocated_ram :: json
  username :: json
  window_width :: json
  window_height :: json
  fullscreen :: json
  custom_jvm_args :: json
  server_ip :: json
  server_port :: json
  favorite_versions :: "string list"
  recent_versions :: "string list"
  theme :: json
  files :: "string \<rightharpoonup> document"

text \<open>
  The Tk variables and widgets read by \<^verbatim>\<open>save_settings_ui\<close> and \<^verbatim>\<open>launch_minecraft\<close>.
  All of them are created by \<^verbatim>\<open>create_ui\<close>, which \<^verbatim>\<open>__init__\<close> calls, and
  \<^verbatim>\<open>save_settings_ui\<close> reads every one of them before \<^verbatim>\<open>launch\<close> starts; so the
  \<^verbatim>\<open>hasattr(self, ...)\<close> tests of \<^verbatim>\<open>launch\<close> hold whenever they are reached, and the
  model follows those branches.
\<close>

record ui =
  version_var :: string
  mod_loader_var :: string
  username_var :: string
  java_path_var :: string
  ram_var :: int
  window_width_var :: int
  window_height_var :: int
  fullscreen_var :: bool
  jvm_text_widget :: string
  theme_var :: string
  server_ip_var :: string
  server_port_var :: string

text \<open>\<^verbatim>\<open>xs[-10:]\<close>: the last ten elements, or all of them when there are fewer.\<close>

definition last10 :: "'a list \<Rightarrow> 'a list" where
  "last10 xs = drop (length xs - 10) xs"

definition saved_keys :: "launcher \<Rightarrow> (string \<times> json) list" where
  "saved_keys st =
     [(''selected_version'', selected_version st),
      (''selected_mod_loader'', selected_mod_loader st),
      (''java_path'', java_path st),
      (''allocated_ram'', allocated_ram st),
      (''username'', username st),
      (''window_width'', window_width st),
      (''window_height'', window_height st),
      (''fullscreen'', fullscreen st),
      (''custom_jvm_args'', custom_jvm_args st),
      (''server_ip'', server_ip st),
      (''server_port'', server_port st),
      (''favorite_versions'', JList (map JStr (favorite_versions st))),
      (''recent_versions'', JList (map JStr (last10 (recent_versions st)))),
      (''theme'', theme st)]"

text \<open>
  \<^verbatim>\<open>save_settings\<close>: \<^verbatim>\<open>self.settings\<close> is assigned a new dictionary built from the
  attributes, and that dictionary is written to \<^verbatim>\<open>launcher_settings.json\<close>.
\<close>

definition save_settings :: "launcher \<Rightarrow> launcher" where
  "save_settings st =
     (let doc = map_of (saved_keys st)
      in st\<lparr>settings := doc, files := (files st)(settings_file \<mapsto> doc)\<rparr>)"

definition save_settings_ui :: "launcher \<Rightarrow> ui \<Rightarrow> launcher" where
  "save_settings_ui st u =
     save_settings
       (st\<lparr>username := JStr (username_var u),
           java_path := JStr (java_path_var u),
           allocated_ram := JInt (ram_var u),
           selected_version := JStr (version_var u),
           selected_mod_loader := JStr (mod_loader_var u),
           window_width := JInt (window_width_var u),
           window_height := JInt (window_height_var u),
           fullscreen := JBool (fullscreen_var u),
           custom_jvm_args := JStr (strip (jvm_text_widget u)),
           theme := JStr (theme_var u),
           server_ip := JStr (server_ip_var u),
           server_port := JStr (server_port_var u)\<rparr>)"

text \<open>\<^verbatim>\<open>d.get(key, default)\<close> on the settings document.\<close>

definition get_or :: "document \<Rightarrow> string \<Rightarrow> json \<Rightarrow> json" where
  "get_or d k dflt = (case d k of None \<Rightarrow> dflt | Some v \<Rightarrow> v)"

text \<open>
  \<^verbatim>\<open>export_settings\<close>: the file dialog gives a path (the empty string when it is
  cancelled) and \<^verbatim>\<open>self.settings\<close> is dumped there.
\<close>

definition export_settings :: "launcher \<Rightarrow> string \<Rightarrow> launcher" where
  "export_settings st file_path =
     (if file_path \<noteq> [] then st\<lparr>files := (files st)(file_path \<mapsto> settings st)\<rparr> else st)"

text \<open>
  \<^verbatim>\<open>import_settings\<close>: \<open>imported\<close> is the document \<^verbatim>\<open>json.load\<close> read from the chosen
  file (\<open>None\<close> when the dialog is cancelled or the file cannot be read, which leaves the
  launcher as it is); \<open>found_java\<close> is what \<^verbatim>\<open>self.find_java()\<close> returns.
\<close>

definition import_settings :: "launcher \<Rightarrow> document option \<Rightarrow> string \<Rightarrow> launcher" where
  "import_settings st imported found_java =
     (case imported of
        None \<Rightarrow> st
      | Some imported_settings \<Rightarrow>
          (let s = settings st ++ imported_settings
           in save_settings
                (st\<lparr>settings := s,
                    selected_version := get_or s ''selected_version'' (JStr []),
                    selected_mod_loader := get_or s ''selected_mod_loader'' (JStr ''vanilla''),
                    java_path := get_or s ''java_path'' (JStr found_java),
                    allocated_ram := get_or s ''allocated_ram'' (JInt 4096),
                    username := get_or s ''username'' (JStr ''Player''),
                    window_width := get_or s ''window_width'' (JInt 854),
                    window_height := get_or s ''window_height'' (JInt 480),
                    fullscreen := get_or s ''fullscreen'' (JBool False),
                    custom_jvm_args := get_or s ''custom_jvm_args'' (JStr []),
                    theme := get_or s ''theme'' (JStr ''light'')\<rparr>)))"

section \<open>Recent versions and statistics\<close>

text \<open>
  The block "Add to recent versions" of \<^verbatim>\<open>launch\<close>: \<^verbatim>\<open>list.remove\<close> takes out the
  first occurrence only.
\<close>

definition add_recent :: "string \<Rightarrow> string list \<Rightarrow> string list" where
  "add_recent launch_version recent =
     last10 (if launch_version \<notin> set recent
             then recent @ [launch_version]
             else remove1 launch_version recent @ [launch_version])"

text \<open>
  Python dictionaries inside the document, as association lists: \<^verbatim>\<open>d[k] = v\<close> replaces
  the value of a key that is there and appends a new key at the end.
\<close>

fun dict_set :: "string \<Rightarrow> json \<Rightarrow> (string \<times> json) list \<Rightarrow> (string \<times> json) list" where
  "dict_set k v [] = [(k, v)]"
| "dict_set k v ((k', v') # d) = (if k' = k then (k, v) # d else (k', v') # dict_set k v d)"

definition dict_get_or :: "(string \<times> json) list \<Rightarrow> string \<Rightarrow> json \<Rightarrow> json" where
  "dict_get_or d k dflt = (case map_of d k of None \<Rightarrow> dflt | Some v \<Rightarrow> v)"

text \<open>
  The value as a dictionary, and as the number an addition or comparison sees (a Python
  \<^verbatim>\<open>bool\<close> is an integer); \<open>None\<close> stands for the \<^verbatim>\<open>AttributeError\<close> or
  \<^verbatim>\<open>TypeError\<close> that any other value raises in the statistics block.
\<close>

fun as_dict :: "json \<Rightarrow> (string \<times> json) list option" where
  "as_dict (JObj d) = Some d"
| "as_dict _ = None"

fun as_int :: "json \<Rightarrow> int option" where
  "as_int (JInt i) = Some i"
| "as_int (JBool b) = Some (if b then 1 else 0)"
| "as_int _ = None"

fun all_ints :: "(string \<times> json) list \<Rightarrow> (string \<times> int) list option" where
  "all_ints [] = Some []"
| "all_ints ((k, v) # d) =
     (case as_int v of
        None \<Rightarrow> None
      | Some i \<Rightarrow> (case all_ints d of None \<Rightarrow> None | Some r \<Rightarrow> Some ((k, i) # r)))"

text \<open>\<^verbatim>\<open>max(d, key=d.get)\<close>: the first key, in the dictionary's order, with the largest value.\<close>

fun max_key :: "(string \<times> int) list \<Rightarrow> string \<Rightarrow> int \<Rightarrow> string" where
  "max_key [] k v = k"
| "max_key ((k', v') # d) k v = (if v < v' then max_key d k' v' else max_key d k v)"

definition most_used :: "(string \<times> json) list \<Rightarrow> string option" where
  "most_used counts =
     (case all_ints counts of
        None \<Rightarrow> None
      | Some [] \<Rightarrow> None
      | Some ((k, v) # d) \<Rightarrow> Some (max_key d k v))"

text \<open>
  The block "Update statistics" of \<^verbatim>\<open>launch\<close>, up to
  \<^verbatim>\<open>self.settings["statistics"] = stats\<close>; \<open>None\<close> when it raises.
\<close>

definition update_statistics :: "document \<Rightarrow> string \<Rightarrow> string \<Rightarrow> document option" where
  "update_statistics s launch_version now_str =
     (case as_dict (get_or s ''statistics'' (JObj [])) of
        None \<Rightarrow> None
      | Some stats0 \<Rightarrow>
     (case as_int (dict_get_or stats0 ''total_launches'' (JInt 0)) of
        None \<Rightarrow> None
      | Some n \<Rightarrow>
     (let stats1 = dict_set ''total_launches'' (JInt (n + 1)) stats0;
          stats2 = dict_set ''last_launch'' (JStr now_str) stats1
      in
     (case as_dict (dict_get_or stats2 ''version_counts'' (JObj [])) of
        None \<Rightarrow> None
      | Some counts0 \<Rightarrow>
     (let counts1 = (if map_of counts0 launch_version = None
                     then dict_set launch_version (JInt 0) counts0 else counts0)
      in
     (case as_int (dict_get_or counts1 launch_version (JInt 0)) of
        None \<Rightarrow> None
      | Some c \<Rightarrow>
     (let counts2 = dict_set launch_version (JInt (c + 1)) counts1;
          stats3 = dict_set ''version_counts'' (JObj counts2) stats2
      in
     (case most_used counts2 of
        None \<Rightarrow> None
      | Some m \<Rightarrow>
          Some (s(''statistics'' \<mapsto>
                  JObj (dict_set ''most_used_version'' (JStr m) stats3)))))))))))"

section \<open>Launching\<close>

text \<open>
  The options handed to \<^verbatim>\<open>get_minecraft_command\<close>: the keys \<^verbatim>\<open>launch\<close> sets (the
  library's \<^verbatim>\<open>generate_test_options()\<close> adds a uuid and a token of its own).
\<close>

record options =
  opt_username :: string
  jvmArguments :: "string list"
  executablePath :: string
  customResolution :: bool
  resolutionWidth :: "string option"
  resolutionHeight :: "string option"
  server :: "string option"
  port :: "string option"

text \<open>
  What \<^verbatim>\<open>launch\<close> cannot decide by itself: the installed versions, what the library's
  \<^verbatim>\<open>get_minecraft_command\<close> answers, what \<^verbatim>\<open>subprocess.Popen\<close> answers, and the clock.
\<close>

datatype command_result = Command "string list" | VersionNotFound | CommandException string

datatype popen_result = Process nat | FileNotFoundError | PopenException string

record env =
  installed :: "string set"
  get_minecraft_command :: "string \<Rightarrow> options \<Rightarrow> command_result"
  popen :: "string list \<Rightarrow> popen_result"
  now :: string

text \<open>
  The ways \<^verbatim>\<open>launch_minecraft\<close> ends without a running game, named after the message
  boxes it shows: "No Version", "Invalid Version", "No Username", "Version Not Installed",
  "Version Not Found", "Launch Error" (command creation failed), "Java Not Found" and
  "Launch Error" (process start failed).
\<close>

datatype launch_error =
  NoVersion
| InvalidVersion string
| NoUsername
| VersionNotInstalled string
| VersionNotFoundError string
| CommandCreationFailed string
| JavaNotFound string
| ProcessStartFailed

record launched =
  launch_version :: string
  launch_options :: options
  command :: "string list"
  pid :: nat

text \<open>
  The options \<^verbatim>\<open>launch\<close> assembles. Both branches of its window settings (fullscreen or
  not) set \<^verbatim>\<open>customResolution\<close> and take the resolution from the width and height
  variables; \<^verbatim>\<open>port\<close> is set only inside \<^verbatim>\<open>if server_ip:\<close>, under \<^verbatim>\<open>if server_port:\<close>.
\<close>

definition build_options :: "ui \<Rightarrow> string \<Rightarrow> options" where
  "build_options u username_stripped =
     (let server_ip' = strip (server_ip_var u);
          server_port' = strip (server_port_var u)
      in \<lparr>opt_username = username_stripped,
          jvmArguments = jvm_arguments (ram_var u) (jvm_text_widget u),
          executablePath = java_path_var u,
          customResolution = True,
          resolutionWidth = Some (str_int (window_width_var u)),
          resolutionHeight = Some (str_int (window_height_var u)),
          server = (if server_ip' \<noteq> [] then Some server_ip' else None),
          port = (if server_ip' \<noteq> [] \<and> server_port' \<noteq> [] then Some server_port' else None)\<rparr>)"

text \<open>
  The inner function \<^verbatim>\<open>launch\<close>, run after the validation and after
  \<^verbatim>\<open>save_settings_ui\<close>. It returns the launcher's state with the outcome.
\<close>

definition launch ::
  "launcher \<Rightarrow> ui \<Rightarrow> env \<Rightarrow> string \<Rightarrow> string \<Rightarrow> launcher \<times> (launch_error + launched)" where
  "launch st u e version username_stripped =
     (if version \<notin> installed e then (st, Inl (VersionNotInstalled version))
      else
        (let lv = launch_version_of (installed e) (mod_loader_var u) version;
             opts = build_options u username_stripped;
             st1 = st\<lparr>recent_versions := add_recent lv (recent_versions st)\<rparr>
         in case get_minecraft_command e lv opts of
              VersionNotFound \<Rightarrow> (st1, Inl (VersionNotFoundError lv))
            | CommandException msg \<Rightarrow> (st1, Inl (CommandCreationFailed msg))
            | Command cmd \<Rightarrow>
                (case popen e cmd of
                   FileNotFoundError \<Rightarrow> (st1, Inl (JavaNotFound (executablePath opts)))
                 | PopenException msg \<Rightarrow> (st1, Inl ProcessStartFailed)
                 | Process p \<Rightarrow>
                     (case update_statistics (settings st1) lv (now e) of
                        None \<Rightarrow> (st1, Inl ProcessStartFailed)
                      | Some s \<Rightarrow>
                          (save_settings (st1\<lparr>settings := s\<rparr>),
                           Inr \<lparr>launch_version = lv, launch_options = opts,
                                command = cmd, pid = p\<rparr>)))))"

text \<open>
  \<^verbatim>\<open>launch_minecraft\<close>: the version and the username are validated, in that order, before
  anything is saved or looked up.
\<close>

definition launch_minecraft ::
  "launcher \<Rightarrow> ui \<Rightarrow> env \<Rightarrow> launcher \<times> (launch_error + launched)" where
  "launch_minecraft st u e =
     (let version = strip (version_var u)
      in if version = [] \<or> lower version = ''value'' \<or> version = [] then (st, Inl NoVersion)
         else if \<not> list_ex isdigit version then (st, Inl (InvalidVersion version))
         else (let username_stripped = strip (username_var u)
               in if username_stripped = [] then (st, Inl NoUsername)
                  else launch (save_settings_ui st u) u e version username_stripped))"

section \<open>Concrete requests and environments\<close>

text \<open>
  The launcher right after \<^verbatim>\<open>__init__\<close> when no settings file exists: every attribute has
  its default, and \<^verbatim>\<open>self.settings\<close> holds the statistics object \<^verbatim>\<open>__init__\<close> adds.
\<close>

definition initial_statistics :: json where
  "initial_statistics =
     JObj [(''total_launches'', JInt 0), (''total_playtime'', JInt 0),
           (''most_used_version'', JStr []), (''last_launch'', JStr [])]"

definition fresh_launcher :: launcher where
  "fresh_launcher =
     \<lparr>settings = map_of [(''statistics'', initial_statistics)],
      selected_version = JStr [],
      selected_mod_loader = JStr ''vanilla'',
      java_path = JStr ''java'',
      allocated_ram = JInt 4096,
      username = JStr ''Player'',
      window_width = JInt 854,
      window_height = JInt 480,
      fullscreen = JBool False,
      custom_jvm_args = JStr [],
      server_ip = JStr [],
      server_port = JStr ''25565'',
      favorite_versions = [],
      recent_versions = [],
      theme = JStr ''light'',
      files = map_of []\<rparr>"

text \<open>
  The request of the specification's scenario: version 1.20.1 with Fabric, user Steve,
  4096 MB, and a JVM text of one flag followed by an empty line.
\<close>

definition g1gc_text :: string where
  "g1gc_text = ''-XX:+UseG1GC'' @ [CHR 0x0A, CHR 0x0A]"

definition steve_request :: ui where
  "steve_request =
     \<lparr>version_var = ''1.20.1'',
      mod_loader_var = ''fabric'',
      username_var = ''Steve'',
      java_path_var = ''java'',
      ram_var = 4096,
      window_width_var = 854,
      window_height_var = 480,
      fullscreen_var = False,
      jvm_text_widget = g1gc_text,
      theme_var = ''light'',
      server_ip_var = [],
      server_port_var = ''25565''\<rparr>"

text \<open>A backend that builds a command for every version, and one that knows none.\<close>

definition accept_command :: "string \<Rightarrow> options \<Rightarrow> command_result" where
  "accept_command v opts = Command (executablePath opts # jvmArguments opts @ [v])"

definition reject_command :: "string \<Rightarrow> options \<Rightarrow> command_result" where
  "reject_command v opts = VersionNotFound"

definition start_process :: "string list \<Rightarrow> popen_result" where
  "start_process cmd = Process 4242"

definition env_of :: "string list \<Rightarrow> (string \<Rightarrow> options \<Rightarrow> command_result) \<Rightarrow> env" where
  "env_of versions backend =
     \<lparr>installed = set versions, get_minecraft_command = backend,
      popen = start_process, now = ''2024-01-01 12:00:00''\<rparr>"

text \<open>
  The three checks \<^verbatim>\<open>launch_minecraft\<close> makes before it saves or looks up anything, taken
  together: the stripped version is not empty, is not the placeholder, holds a digit, and
  the stripped username is not empty.
\<close>

definition passes_validation :: "ui \<Rightarrow> bool" where
  "passes_validation u =
     (strip (version_var u) \<noteq> [] \<and> lower (strip (version_var u)) \<noteq> ''value''
      \<and> list_ex isdigit (strip (version_var u)) \<and> strip (username_var u) \<noteq> [])"

text \<open>
  Further requests: one that joins a server and leaves the port field empty, one whose
  version field holds text without a digit (and whose username is blank), one whose version
  field is blank (and whose username is empty), and one with a blank username only.
\<close>

definition server_request :: ui where
  "server_request = steve_request\<lparr>server_ip_var := ''play.example.com'', server_port_var := []\<rparr>"

definition latest_request :: ui where
  "latest_request = steve_request\<lparr>version_var := ''latest'', username_var := ''  ''\<rparr>"

definition blank_request :: ui where
  "blank_request = steve_request\<lparr>version_var := '' '', username_var := []\<rparr>"

definition nameless_request :: ui where
  "nameless_request = steve_request\<lparr>username_var := ''  ''\<rparr>"

text \<open>A settings file to import: one key the launcher does not know, one it knows.\<close>

definition custom_document :: document where
  "custom_document = map_of [(''custom_key'', JInt 1), (''username'', JStr ''Alex'')]"



definition duplicated_launcher :: launcher where
  "duplicated_launcher = fresh_launcher\<lparr>recent_versions := [''1.20.1'', ''1.20.1'']\<rparr>"

definition spaces_request :: ui where
  "spaces_request = steve_request\<lparr>server_ip_var := '' '', server_port_var := ''25565''\<rparr>"

section \<open>Properties of the string functions\<close>

















lemma rev_dropWhile_takeWhile:
  "xs = rev (dropWhile P (rev xs)) @ rev (takeWhile P (rev xs))"
proof -
  have "rev (takeWhile P (rev xs) @ dropWhile P (rev xs)) = rev (rev xs)"
    by (simp only: takeWhile_dropWhile_id)
  then show ?thesis
    by (simp only: rev_append rev_rev_ident)
qed

lemma lstrip_rstrip_decomp: "lstrip s = strip s @ rev (takeWhile isspace (rev (lstrip s)))"
  unfolding strip_def rstrip_def by (rule rev_dropWhile_takeWhile)

lemma strip_decomp:
  "\<exists>pre post. s = pre @ strip s @ post \<and> list_all isspace pre \<and> list_all isspace post"
proof -
  have 1: "s = takeWhile isspace s @ lstrip s"
    by (simp add: lstrip_def)
  have 3: "list_all isspace (takeWhile isspace s)"
    and 4: "list_all isspace (rev (takeWhile isspace (rev (lstrip s))))"
    by (auto simp: list_all_iff dest: set_takeWhileD)
  have "s = takeWhile isspace s @ strip s @ rev (takeWhile isspace (rev (lstrip s)))"
    using 1 lstrip_rstrip_decomp [of s] by simp
  with 3 4 show ?thesis by blast
qed








text \<open>The equations that evaluate the string functions on a literal.\<close>

lemmas string_eval =
  strip_def lstrip_def rstrip_def isspace_def isdigit_def lower_def lower_char_def
  split_lines_def str_int_def str_nat.simps digit_char_def char_of_def bit_Suc_0_iff

section \<open>JVM arguments\<close>




section \<open>Properties of the settings functions\<close>

lemma length_last10: "length (last10 xs) \<le> 10"
  by (simp add: last10_def)

lemma distinct_last10: "distinct xs \<Longrightarrow> distinct (last10 xs)"
  by (simp add: last10_def)

lemma last_last10: "xs \<noteq> [] \<Longrightarrow> last (last10 xs) = last xs"
  by (cases xs rule: rev_cases) (simp_all add: last10_def)

lemma last10_nonempty: "xs \<noteq> [] \<Longrightarrow> last10 xs \<noteq> []"
  by (cases xs rule: rev_cases) (simp_all add: last10_def)

lemma settings_save_settings: "settings (save_settings st) = map_of (saved_keys st)"
  by (simp add: save_settings_def Let_def)

lemma files_save_settings:
  "files (save_settings st) = (files st)(settings_file \<mapsto> map_of (saved_keys st))"
  by (simp add: save_settings_def Let_def)

lemma recent_versions_save_settings: "recent_versions (save_settings st) = recent_versions st"
  by (simp add: save_settings_def Let_def)

lemma saved_keys_settings_update: "saved_keys (st\<lparr>settings := s\<rparr>) = saved_keys st"
  by (simp add: saved_keys_def)

lemma save_settings_settings_update: "save_settings (st\<lparr>settings := s\<rparr>) = save_settings st"
  by (simp add: save_settings_def saved_keys_settings_update Let_def)

lemma dom_saved_keys:
  "dom (map_of (saved_keys st)) =
     {''selected_version'', ''selected_mod_loader'', ''java_path'', ''allocated_ram'',
      ''username'', ''window_width'', ''window_height'', ''fullscreen'', ''custom_jvm_args'',
      ''server_ip'', ''server_port'', ''favorite_versions'', ''recent_versions'', ''theme''}"
  by (simp add: dom_map_of_conv_image_fst saved_keys_def)

lemma saved_keys_statistics: "map_of (saved_keys st) ''statistics'' = None"
  by (simp add: saved_keys_def)

lemma saved_keys_recent:
  "map_of (saved_keys st) ''recent_versions'' = Some (JList (map JStr (last10 (recent_versions st))))"
  by (simp add: saved_keys_def)

lemma recent_versions_save_settings_ui: "recent_versions (save_settings_ui st u) = recent_versions st"
  by (simp add: save_settings_ui_def recent_versions_save_settings)

lemma settings_save_settings_ui_statistics: "settings (save_settings_ui st u) ''statistics'' = None"
  by (simp add: save_settings_ui_def settings_save_settings saved_keys_statistics)

lemma files_save_settings_ui:
  "files (save_settings_ui st u) settings_file = Some (settings (save_settings_ui st u))"
  by (simp add: save_settings_ui_def files_save_settings settings_save_settings)

lemma settings_save_settings_ui_recent:
  "settings (save_settings_ui st u) ''recent_versions''
     = Some (JList (map JStr (last10 (recent_versions st))))"
  by (simp add: save_settings_ui_def settings_save_settings saved_keys_def)

text \<open>
  After \<^verbatim>\<open>save_settings\<close> the document holds no statistics, so the statistics block of
  \<^verbatim>\<open>launch\<close> starts from the empty dictionary and does not raise.
\<close>

lemma update_statistics_fresh:
  assumes "s ''statistics'' = None"
  shows "update_statistics s lv t =
    Some (s(''statistics'' \<mapsto>
      JObj [(''total_launches'', JInt 1), (''last_launch'', JStr t),
            (''version_counts'', JObj [(lv, JInt 1)]), (''most_used_version'', JStr lv)]))"
  using assms
  by (simp add: update_statistics_def get_or_def dict_get_or_def most_used_def)

section \<open>Properties of the launch\<close>

lemma launch_version_of_installed:
  "version \<in> inst \<Longrightarrow> launch_version_of inst mod_loader version \<in> inst"
  by (simp add: launch_version_of_def possible_versions_def)

lemma launch_not_installed:
  "version \<notin> installed e \<Longrightarrow> launch st u e version n = (st, Inl (VersionNotInstalled version))"
  by (simp add: launch_def)

lemma launch_VersionNotInstalled_iff:
  "(snd (launch st u e version n) = Inl (VersionNotInstalled x)) =
     (x = version \<and> version \<notin> installed e)"
  by (auto simp: launch_def Let_def
           split: command_result.splits popen_result.splits option.splits)

lemma launch_Inr:
  assumes "snd (launch st u e version n) = Inr r"
  shows "launch_version r = launch_version_of (installed e) (mod_loader_var u) version
         \<and> launch_options r = build_options u n \<and> version \<in> installed e"
  using assms
  by (auto simp: launch_def Let_def
           split: if_splits command_result.splits popen_result.splits option.splits)

lemma launch_recent_versions:
  "recent_versions (fst (launch st u e version n)) =
     (if version \<in> installed e
      then add_recent (launch_version_of (installed e) (mod_loader_var u) version)
             (recent_versions st)
      else recent_versions st)"
  by (simp add: launch_def Let_def recent_versions_save_settings
           split: command_result.splits popen_result.splits option.splits)

lemma launch_Inl_settings:
  assumes "snd (launch st u e version n) = Inl err"
  shows "settings (fst (launch st u e version n)) = settings st
         \<and> files (fst (launch st u e version n)) = files st"
  using assms
  by (auto simp: launch_def Let_def
           split: if_splits command_result.splits popen_result.splits option.splits)

lemma launch_success:
  assumes "version \<in> installed e"
    and "settings st ''statistics'' = None"
    and "get_minecraft_command e (launch_version_of (installed e) (mod_loader_var u) version)
           (build_options u n) = Command cmd"
    and "popen e cmd = Process p"
  shows "launch st u e version n =
     (save_settings
        (st\<lparr>recent_versions :=
              add_recent (launch_version_of (installed e) (mod_loader_var u) version)
                (recent_versions st)\<rparr>),
      Inr \<lparr>launch_version = launch_version_of (installed e) (mod_loader_var u) version,
           launch_options = build_options u n, command = cmd, pid = p\<rparr>)"
  using assms
  by (simp add: launch_def Let_def update_statistics_fresh save_settings_settings_update)

lemma launch_backend_failure:
  assumes "version \<in> installed e"
    and "get_minecraft_command e (launch_version_of (installed e) (mod_loader_var u) version)
           (build_options u n) = VersionNotFound"
  shows "launch st u e version n =
     (st\<lparr>recent_versions :=
           add_recent (launch_version_of (installed e) (mod_loader_var u) version)
             (recent_versions st)\<rparr>,
      Inl (VersionNotFoundError (launch_version_of (installed e) (mod_loader_var u) version)))"
  using assms by (simp add: launch_def Let_def)

lemma launch_minecraft_validated:
  assumes "passes_validation u"
  shows "launch_minecraft st u e =
     launch (save_settings_ui st u) u e (strip (version_var u)) (strip (username_var u))"
  using assms by (simp add: launch_minecraft_def passes_validation_def Let_def)

lemma launch_minecraft_not_validated:
  assumes "\<not> passes_validation u"
  shows "launch_minecraft st u e =
     (st, Inl (if strip (version_var u) = [] \<or> lower (strip (version_var u)) = ''value''
               then NoVersion
               else if \<not> list_ex isdigit (strip (version_var u))
               then InvalidVersion (strip (version_var u))
               else NoUsername))"
  using assms by (auto simp: launch_minecraft_def passes_validation_def Let_def)

lemma launch_minecraft_Inr:
  assumes "snd (launch_minecraft st u e) = Inr r"
  shows "launch_version r = launch_version_of (installed e) (mod_loader_var u) (strip (version_var u))
         \<and> launch_options r = build_options u (strip (username_var u))"
proof (cases "passes_validation u")
  case True
  then show ?thesis
    using assms launch_Inr [of "save_settings_ui st u" u e "strip (version_var u)" "strip (username_var u)" r]
    by (simp add: launch_minecraft_validated)
next
  case False
  then show ?thesis
    using assms by (simp add: launch_minecraft_not_validated)
qed

lemma launch_minecraft_success:
  assumes "passes_validation u"
    and "strip (version_var u) \<in> installed e"
    and "get_minecraft_command e
           (launch_version_of (installed e) (mod_loader_var u) (strip (version_var u)))
           (build_options u (strip (username_var u))) = Command cmd"
    and "popen e cmd = Process p"
  shows "snd (launch_minecraft st u e) =
     Inr \<lparr>launch_version =
            launch_version_of (installed e) (mod_loader_var u) (strip (version_var u)),
          launch_options = build_options u (strip (username_var u)),
          command = cmd, pid = p\<rparr>"
  using assms
  by (simp add: launch_minecraft_validated launch_success settings_save_settings_ui_statistics)

lemma launch_minecraft_recent_versions:
  assumes "passes_validation u" and "strip (version_var u) \<in> installed e"
  shows "recent_versions (fst (launch_minecraft st u e)) =
     add_recent (launch_version_of (installed e) (mod_loader_var u) (strip (version_var u)))
       (recent_versions st)"
  using assms
  by (simp add: launch_minecraft_validated launch_recent_versions recent_versions_save_settings_ui)

lemma launch_minecraft_refused:
  assumes "passes_validation u" and "strip (version_var u) \<notin> installed e"
  shows "launch_minecraft st u e =
     (save_settings_ui st u, Inl (VersionNotInstalled (strip (version_var u))))"
  using assms by (simp add: launch_minecraft_validated launch_not_installed)

lemma launch_minecraft_outcome:
  assumes "passes_validation u" and "strip (version_var u) \<in> installed e"
  shows "snd (launch_minecraft st u e) =
     (case get_minecraft_command e
             (launch_version_of (installed e) (mod_loader_var u) (strip (version_var u)))
             (build_options u (strip (username_var u))) of
        VersionNotFound \<Rightarrow>
          Inl (VersionNotFoundError
                 (launch_version_of (installed e) (mod_loader_var u) (strip (version_var u))))
      | CommandException msg \<Rightarrow> Inl (CommandCreationFailed msg)
      | Command cmd \<Rightarrow>
          (case popen e cmd of
             FileNotFoundError \<Rightarrow>
               Inl (JavaNotFound (executablePath (build_options u (strip (username_var u)))))
           | PopenException msg \<Rightarrow> Inl ProcessStartFailed
           | Process p \<Rightarrow>
               Inr \<lparr>launch_version =
                      launch_version_of (installed e) (mod_loader_var u) (strip (version_var u)),
                    launch_options = build_options u (strip (username_var u)),
                    command = cmd, pid = p\<rparr>))"
  using assms
  by (simp add: launch_minecraft_validated launch_def Let_def update_statistics_fresh
        settings_save_settings_ui_statistics
      split: command_result.splits popen_result.splits)

text \<open>
  The concrete requests and environments, evaluated.
\<close>

lemma steve_request_eval:
  "passes_validation steve_request"
  "strip (version_var steve_request) = ''1.20.1''"
  "strip (username_var steve_request) = ''Steve''"
  "mod_loader_var steve_request = ''fabric''"
  by (simp_all add: passes_validation_def steve_request_def string_eval)

lemma server_request_eval:
  "passes_validation server_request"
  "strip (version_var server_request) = ''1.20.1''"
  "strip (username_var server_request) = ''Steve''"
  "mod_loader_var server_request = ''fabric''"
  "strip (server_ip_var server_request) = ''play.example.com''"
  "strip (server_port_var server_request) = []"
  by (simp_all add: passes_validation_def server_request_def steve_request_def string_eval)

lemma env_of_eval:
  "installed (env_of vs b) = set vs"
  "get_minecraft_command (env_of vs b) = b"
  "popen (env_of vs b) = start_process"
  by (simp_all add: env_of_def)

lemma launch_ok_eval:
  assumes "passes_validation u" and "strip (version_var u) \<in> set vs"
  shows "snd (launch_minecraft st u (env_of vs accept_command)) =
     Inr \<lparr>launch_version = launch_version_of (set vs) (mod_loader_var u) (strip (version_var u)),
          launch_options = build_options u (strip (username_var u)),
          command = executablePath (build_options u (strip (username_var u)))
                      # jvmArguments (build_options u (strip (username_var u)))
                      @ [launch_version_of (set vs) (mod_loader_var u) (strip (version_var u))],
          pid = 4242\<rparr>"
  using assms
  by (subst launch_minecraft_success)
     (simp_all add: env_of_eval accept_command_def start_process_def)

section \<open>Validation\<close>

text \<open>
  Claim C6. When the version (the stripped text of the version field) is empty, is the
  placeholder \<^verbatim>\<open>value\<close>, or holds no digit, \<^verbatim>\<open>launch_minecraft\<close> ends with the
  "No Version" or the "Invalid Version" error, whatever the username, the installed versions
  and the backend are, and the launcher's state is unchanged. When the version passes and
  the username strips to the empty string, it ends with "No Username", again with the state
  unchanged. The version is checked first.
\<close>

theorem validation_order:
  "(strip (version_var u) = [] \<or> strip (version_var u) = ''value''
      \<or> \<not> list_ex isdigit (strip (version_var u))
     \<longrightarrow> launch_minecraft st u e =
          (st, Inl (if strip (version_var u) = [] \<or> lower (strip (version_var u)) = ''value''
                    then NoVersion else InvalidVersion (strip (version_var u)))))
   \<and> (strip (version_var u) \<noteq> [] \<and> lower (strip (version_var u)) \<noteq> ''value''
        \<and> list_ex isdigit (strip (version_var u)) \<and> strip (username_var u) = []
     \<longrightarrow> launch_minecraft st u e = (st, Inl NoUsername))"
proof -
  have low: "lower ''value'' = ''value''"
    by (simp add: string_eval)
  show ?thesis
    using low by (auto simp: launch_minecraft_def Let_def)
qed

theorem validation_order_witness:
  "launch_minecraft fresh_launcher blank_request (env_of [] reject_command)
     = (fresh_launcher, Inl NoVersion)
   \<and> launch_minecraft fresh_launcher latest_request (env_of [] reject_command)
     = (fresh_launcher, Inl (InvalidVersion ''latest''))
   \<and> launch_minecraft fresh_launcher nameless_request (env_of [] reject_command)
     = (fresh_launcher, Inl NoUsername)"
proof -
  have b: "strip (version_var blank_request) = []"
    by (simp add: blank_request_def steve_request_def string_eval)
  have l: "strip (version_var latest_request) = ''latest''"
      "lower ''latest'' = ''latest''" "\<not> list_ex isdigit ''latest''"
    by (simp_all add: latest_request_def steve_request_def string_eval)
  have n: "strip (version_var nameless_request) = ''1.20.1''"
      "lower ''1.20.1'' = ''1.20.1''" "list_ex isdigit ''1.20.1''"
      "strip (username_var nameless_request) = []"
    by (simp_all add: nameless_request_def steve_request_def string_eval)
  show ?thesis
    using validation_order [of blank_request fresh_launcher "env_of [] reject_command"]
      validation_order [of latest_request fresh_launcher "env_of [] reject_command"]
      validation_order [of nameless_request fresh_launcher "env_of [] reject_command"]
    by (simp add: b l n isdigit_def)
qed

section \<open>The installed check and the choice of the version\<close>

text \<open>
  Claim C1, amended. \<^verbatim>\<open>launch_minecraft\<close> ends with "Version Not Installed" exactly
  when the request passes validation and the selected base version is not installed: the
  check is made on the base version, before the mod-loader variants are probed. Whenever
  the base version is installed, the version chosen for the launch is installed as well.
\<close>

theorem version_not_installed_iff_base_missing:
  "(snd (launch_minecraft st u e) = Inl (VersionNotInstalled x)) =
     (passes_validation u \<and> x = strip (version_var u) \<and> x \<notin> installed e)
   \<and> (strip (version_var u) \<in> installed e \<longrightarrow>
        launch_version_of (installed e) (mod_loader_var u) (strip (version_var u)) \<in> installed e)"
proof (cases "passes_validation u")
  case True
  then show ?thesis
    by (auto simp: launch_minecraft_validated launch_VersionNotInstalled_iff
          launch_version_of_installed)
next
  case False
  then show ?thesis
    by (auto simp: launch_minecraft_not_validated launch_version_of_installed)
qed

theorem version_not_installed_iff_base_missing_witness:
  "snd (launch_minecraft fresh_launcher steve_request (env_of [] accept_command))
     = Inl (VersionNotInstalled ''1.20.1'')
   \<and> ''1.20.1'' \<in> installed (env_of [''1.20.1'', ''fabric-1.20.1''] accept_command)
   \<and> launch_version_of (installed (env_of [''1.20.1'', ''fabric-1.20.1''] accept_command))
        ''fabric'' ''1.20.1'' \<in> installed (env_of [''1.20.1'', ''fabric-1.20.1''] accept_command)
   \<and> snd (launch_minecraft fresh_launcher steve_request
            (env_of [''1.20.1'', ''fabric-1.20.1''] accept_command))
     \<noteq> Inl (VersionNotInstalled ''1.20.1'')"
  using version_not_installed_iff_base_missing
          [of fresh_launcher steve_request "env_of [] accept_command" "''1.20.1''"]
        version_not_installed_iff_base_missing
          [of fresh_launcher steve_request
              "env_of [''1.20.1'', ''fabric-1.20.1''] accept_command" "''1.20.1''"]
  by (simp add: steve_request_eval env_of_eval)

text \<open>
  The request for 1.20.1 with Fabric, with only \<^verbatim>\<open>fabric-1.20.1\<close> installed, is refused
  as not installed, although the variant the probe would choose is installed.
\<close>

theorem fabric_only_is_not_launched:
  "snd (launch_minecraft fresh_launcher steve_request (env_of [''fabric-1.20.1''] accept_command))
     = Inl (VersionNotInstalled ''1.20.1'')
   \<and> launch_version_of (installed (env_of [''fabric-1.20.1''] accept_command)) ''fabric'' ''1.20.1''
     = ''fabric-1.20.1''
   \<and> ''fabric-1.20.1'' \<in> installed (env_of [''fabric-1.20.1''] accept_command)"
  by (simp add: launch_minecraft_validated steve_request_eval launch_not_installed env_of_eval
        launch_version_of_def possible_versions_def)

text \<open>
  Claim C3, amended. With a mod loader other than vanilla the probe takes
  \<^verbatim>\<open><loader>-<version>\<close> when it is installed, whether or not \<^verbatim>\<open><version>-<loader>\<close> is
  installed too, and takes \<^verbatim>\<open><version>-<loader>\<close> when only that one is installed. For a
  request that passes validation and whose base version is installed, with
  \<^verbatim>\<open><loader>-<version>\<close> installed, that composite is the version recorded in the list of
  recent versions, the version the backend is asked for and the version launched. When the
  base version is not installed the launch is refused as not installed before the probe,
  whatever composites are installed.
\<close>

theorem probe_order:
  assumes "mod_loader \<noteq> ''vanilla''"
  shows "(mod_loader @ ''-'' @ version \<in> inst \<longrightarrow>
           launch_version_of inst mod_loader version = mod_loader @ ''-'' @ version)
    \<and> (mod_loader @ ''-'' @ version \<notin> inst \<and> version @ ''-'' @ mod_loader \<in> inst \<longrightarrow>
           launch_version_of inst mod_loader version = version @ ''-'' @ mod_loader)
    \<and> (\<forall>st u e. mod_loader_var u = mod_loader \<and> strip (version_var u) = version
          \<and> installed e = inst \<and> passes_validation u \<and> version \<in> inst
          \<and> mod_loader @ ''-'' @ version \<in> inst \<longrightarrow>
          recent_versions (fst (launch_minecraft st u e))
            = add_recent (mod_loader @ ''-'' @ version) (recent_versions st)
          \<and> snd (launch_minecraft st u e) =
             (case get_minecraft_command e (mod_loader @ ''-'' @ version)
                     (build_options u (strip (username_var u))) of
                VersionNotFound \<Rightarrow> Inl (VersionNotFoundError (mod_loader @ ''-'' @ version))
              | CommandException msg \<Rightarrow> Inl (CommandCreationFailed msg)
              | Command cmd \<Rightarrow>
                  (case popen e cmd of
                     FileNotFoundError \<Rightarrow>
                       Inl (JavaNotFound
                              (executablePath (build_options u (strip (username_var u)))))
                   | PopenException msg \<Rightarrow> Inl ProcessStartFailed
                   | Process p \<Rightarrow>
                       Inr \<lparr>launch_version = mod_loader @ ''-'' @ version,
                            launch_options = build_options u (strip (username_var u)),
                            command = cmd, pid = p\<rparr>)))
    \<and> (\<forall>st u e. mod_loader_var u = mod_loader \<and> strip (version_var u) = version
          \<and> installed e = inst \<and> passes_validation u \<and> version \<notin> inst \<longrightarrow>
          launch_minecraft st u e = (save_settings_ui st u, Inl (VersionNotInstalled version)))"
proof -
  have first: "launch_version_of inst mod_loader version = mod_loader @ ''-'' @ version"
    if "mod_loader @ ''-'' @ version \<in> inst"
    using assms that by (simp add: launch_version_of_def possible_versions_def)
  have second: "launch_version_of inst mod_loader version = version @ ''-'' @ mod_loader"
    if "mod_loader @ ''-'' @ version \<notin> inst" and "version @ ''-'' @ mod_loader \<in> inst"
    using assms that by (simp add: launch_version_of_def possible_versions_def)
  show ?thesis
  proof (intro conjI allI impI)
    fix st :: launcher and u :: ui and e :: env
    assume a: "mod_loader_var u = mod_loader \<and> strip (version_var u) = version
          \<and> installed e = inst \<and> passes_validation u \<and> version \<in> inst
          \<and> mod_loader @ ''-'' @ version \<in> inst"
    then have lv: "launch_version_of (installed e) (mod_loader_var u) (strip (version_var u))
        = mod_loader @ ''-'' @ version"
      using first by simp
    show "recent_versions (fst (launch_minecraft st u e))
            = add_recent (mod_loader @ ''-'' @ version) (recent_versions st)"
      using a launch_minecraft_recent_versions [of u e st] lv by simp
    show "snd (launch_minecraft st u e) =
             (case get_minecraft_command e (mod_loader @ ''-'' @ version)
                     (build_options u (strip (username_var u))) of
                VersionNotFound \<Rightarrow> Inl (VersionNotFoundError (mod_loader @ ''-'' @ version))
              | CommandException msg \<Rightarrow> Inl (CommandCreationFailed msg)
              | Command cmd \<Rightarrow>
                  (case popen e cmd of
                     FileNotFoundError \<Rightarrow>
                       Inl (JavaNotFound
                              (executablePath (build_options u (strip (username_var u)))))
                   | PopenException msg \<Rightarrow> Inl ProcessStartFailed
                   | Process p \<Rightarrow>
                       Inr \<lparr>launch_version = mod_loader @ ''-'' @ version,
                            launch_options = build_options u (strip (username_var u)),
                            command = cmd, pid = p\<rparr>))"
      using a launch_minecraft_outcome [of u e st] unfolding lv by blast
  next
    fix st :: launcher and u :: ui and e :: env
    assume "mod_loader_var u = mod_loader \<and> strip (version_var u) = version
          \<and> installed e = inst \<and> passes_validation u \<and> version \<notin> inst"
    then show "launch_minecraft st u e = (save_settings_ui st u, Inl (VersionNotInstalled version))"
      using launch_minecraft_refused [of u e st] by simp
  qed (simp_all add: first second)
qed

theorem probe_order_witness:
  "''fabric'' \<noteq> ''vanilla''
   \<and> launch_version_of (set [''1.20.1'', ''1.20.1-fabric'', ''fabric-1.20.1'']) ''fabric'' ''1.20.1''
       = ''fabric-1.20.1''
   \<and> launch_version_of (set [''1.20.1'', ''1.20.1-fabric'']) ''fabric'' ''1.20.1''
       = ''1.20.1-fabric''
   \<and> recent_versions (fst (launch_minecraft fresh_launcher steve_request
         (env_of [''1.20.1'', ''1.20.1-fabric'', ''fabric-1.20.1''] accept_command)))
       = [''fabric-1.20.1'']
   \<and> snd (launch_minecraft fresh_launcher steve_request
         (env_of [''1.20.1'', ''1.20.1-fabric'', ''fabric-1.20.1''] accept_command))
       = Inr \<lparr>launch_version = ''fabric-1.20.1'',
              launch_options = build_options steve_request ''Steve'',
              command = executablePath (build_options steve_request ''Steve'')
                          # jvmArguments (build_options steve_request ''Steve'')
                          @ [''fabric-1.20.1''],
              pid = 4242\<rparr>
   \<and> snd (launch_minecraft fresh_launcher steve_request
         (env_of [''1.20.1'', ''fabric-1.20.1''] reject_command))
       = Inl (VersionNotFoundError ''fabric-1.20.1'')
   \<and> launch_minecraft fresh_launcher steve_request (env_of [''fabric-1.20.1''] accept_command)
       = (save_settings_ui fresh_launcher steve_request, Inl (VersionNotInstalled ''1.20.1''))"
proof -
  have h: "''fabric'' \<noteq> ''vanilla''" by simp
  have r: "recent_versions fresh_launcher = []"
    by (simp add: fresh_launcher_def)
  note w3 = probe_order [OF h, of "''1.20.1''" "set [''1.20.1'', ''1.20.1-fabric'', ''fabric-1.20.1'']"]
  note w2 = probe_order [OF h, of "''1.20.1''" "set [''1.20.1'', ''1.20.1-fabric'']"]
  note wr = probe_order [OF h, of "''1.20.1''" "set [''1.20.1'', ''fabric-1.20.1'']"]
  note w1 = probe_order [OF h, of "''1.20.1''" "set [''fabric-1.20.1'']"]
  have a: "launch_version_of (set [''1.20.1'', ''1.20.1-fabric'', ''fabric-1.20.1'']) ''fabric'' ''1.20.1''
       = ''fabric-1.20.1''"
    using w3 by simp
  have b: "launch_version_of (set [''1.20.1'', ''1.20.1-fabric'']) ''fabric'' ''1.20.1''
       = ''1.20.1-fabric''"
    using w2 by simp
  from w3 have c: "recent_versions (fst (launch_minecraft fresh_launcher steve_request
         (env_of [''1.20.1'', ''1.20.1-fabric'', ''fabric-1.20.1''] accept_command)))
       = [''fabric-1.20.1'']
     \<and> snd (launch_minecraft fresh_launcher steve_request
         (env_of [''1.20.1'', ''1.20.1-fabric'', ''fabric-1.20.1''] accept_command))
       = Inr \<lparr>launch_version = ''fabric-1.20.1'',
              launch_options = build_options steve_request ''Steve'',
              command = executablePath (build_options steve_request ''Steve'')
                          # jvmArguments (build_options steve_request ''Steve'')
                          @ [''fabric-1.20.1''],
              pid = 4242\<rparr>"
    by (elim conjE allE [of _ fresh_launcher] allE [of _ steve_request]
          allE [of _ "env_of [''1.20.1'', ''1.20.1-fabric'', ''fabric-1.20.1''] accept_command"])
       (simp add: steve_request_eval env_of_eval accept_command_def start_process_def r
          add_recent_def last10_def)
  from wr have d: "snd (launch_minecraft fresh_launcher steve_request
         (env_of [''1.20.1'', ''fabric-1.20.1''] reject_command))
       = Inl (VersionNotFoundError ''fabric-1.20.1'')"
    by (elim conjE allE [of _ fresh_launcher] allE [of _ steve_request]
          allE [of _ "env_of [''1.20.1'', ''fabric-1.20.1''] reject_command"])
       (simp add: steve_request_eval env_of_eval reject_command_def)
  from w1 have e: "launch_minecraft fresh_launcher steve_request
         (env_of [''fabric-1.20.1''] accept_command)
       = (save_settings_ui fresh_launcher steve_request, Inl (VersionNotInstalled ''1.20.1''))"
    by (elim conjE allE [of _ fresh_launcher] allE [of _ steve_request]
          allE [of _ "env_of [''fabric-1.20.1''] accept_command"])
       (simp add: steve_request_eval env_of_eval)
  show ?thesis
    using h a b c d e by blast
qed

text \<open>
  With both composites installed and the base version missing, the hypotheses of the claim
  hold and the launch is refused: no composite is chosen, nothing is recorded.
\<close>

theorem composite_without_base_is_refused:
  "mod_loader_var steve_request \<noteq> ''vanilla''
   \<and> mod_loader_var steve_request @ ''-'' @ strip (version_var steve_request)
       \<in> installed (env_of [''fabric-1.20.1'', ''1.20.1-fabric''] accept_command)
   \<and> snd (launch_minecraft fresh_launcher steve_request
            (env_of [''fabric-1.20.1'', ''1.20.1-fabric''] accept_command))
       = Inl (VersionNotInstalled ''1.20.1'')
   \<and> recent_versions (fst (launch_minecraft fresh_launcher steve_request
            (env_of [''fabric-1.20.1'', ''1.20.1-fabric''] accept_command))) = []"
  by (simp add: launch_minecraft_refused steve_request_eval env_of_eval
        recent_versions_save_settings_ui fresh_launcher_def)

text \<open>
  Claim C4. With a mod loader other than vanilla, if neither \<^verbatim>\<open><loader>-<version>\<close> nor
  \<^verbatim>\<open><version>-<loader>\<close> is installed, the version chosen for the launch is the base
  version itself, and the choice raises no error: a validated request whose base version is
  installed goes on to the backend with the base version, and is launched when the backend
  builds the command and the process starts.
\<close>

theorem neither_variant_falls_back:
  assumes "mod_loader \<noteq> ''vanilla''"
    and "mod_loader @ ''-'' @ version \<notin> inst"
    and "version @ ''-'' @ mod_loader \<notin> inst"
  shows "launch_version_of inst mod_loader version = version
    \<and> (\<forall>st u e cmd p. mod_loader_var u = mod_loader \<and> strip (version_var u) = version
          \<and> installed e = inst \<and> passes_validation u \<and> version \<in> inst
          \<and> get_minecraft_command e version (build_options u (strip (username_var u))) = Command cmd
          \<and> popen e cmd = Process p
          \<longrightarrow> snd (launch_minecraft st u e) =
                Inr \<lparr>launch_version = version,
                     launch_options = build_options u (strip (username_var u)),
                     command = cmd, pid = p\<rparr>)"
proof -
  have lv: "launch_version_of inst mod_loader version = version"
    using assms by (simp add: launch_version_of_def possible_versions_def)
  show ?thesis
  proof (intro conjI allI impI)
    show "launch_version_of inst mod_loader version = version" by (rule lv)
  next
    fix st :: launcher and u :: ui and e :: env and cmd :: "string list" and p :: nat
    assume a: "mod_loader_var u = mod_loader \<and> strip (version_var u) = version
          \<and> installed e = inst \<and> passes_validation u \<and> version \<in> inst
          \<and> get_minecraft_command e version (build_options u (strip (username_var u))) = Command cmd
          \<and> popen e cmd = Process p"
    then show "snd (launch_minecraft st u e) =
                Inr \<lparr>launch_version = version,
                     launch_options = build_options u (strip (username_var u)),
                     command = cmd, pid = p\<rparr>"
      using lv launch_minecraft_success [of u e cmd p st] by simp
  qed
qed

theorem neither_variant_falls_back_witness:
  "''fabric'' \<noteq> ''vanilla''
   \<and> ''fabric'' @ ''-'' @ ''1.20.1'' \<notin> set [''1.20.1'']
   \<and> ''1.20.1'' @ ''-'' @ ''fabric'' \<notin> set [''1.20.1'']
   \<and> launch_version_of (set [''1.20.1'']) ''fabric'' ''1.20.1'' = ''1.20.1''
   \<and> snd (launch_minecraft fresh_launcher steve_request (env_of [''1.20.1''] accept_command)) =
        Inr \<lparr>launch_version = ''1.20.1'',
             launch_options = build_options steve_request ''Steve'',
             command = executablePath (build_options steve_request ''Steve'')
                         # jvmArguments (build_options steve_request ''Steve'') @ [''1.20.1''],
             pid = 4242\<rparr>"
proof -
  have h1: "''fabric'' \<noteq> ''vanilla''" by simp
  have h2: "''fabric'' @ ''-'' @ ''1.20.1'' \<notin> set [''1.20.1'']" by simp
  have h3: "''1.20.1'' @ ''-'' @ ''fabric'' \<notin> set [''1.20.1'']" by simp
  note w = neither_variant_falls_back [OF h1 h2 h3]
  from w have lv: "launch_version_of (set [''1.20.1'']) ''fabric'' ''1.20.1'' = ''1.20.1''"
    by (rule conjunct1)
  from w have
    "snd (launch_minecraft fresh_launcher steve_request (env_of [''1.20.1''] accept_command)) =
        Inr \<lparr>launch_version = ''1.20.1'',
             launch_options = build_options steve_request (strip (username_var steve_request)),
             command = executablePath (build_options steve_request ''Steve'')
                         # jvmArguments (build_options steve_request ''Steve'') @ [''1.20.1''],
             pid = 4242\<rparr>"
    by (elim conjE allE [of _ fresh_launcher] allE [of _ steve_request]
          allE [of _ "env_of [''1.20.1''] accept_command"]) 
       (simp add: steve_request_eval env_of_eval accept_command_def start_process_def)
  then show ?thesis
    using h1 h2 h3 lv by (simp add: steve_request_eval)
qed

section \<open>Server options\<close>

text \<open>
  Claim C5, amended. For a request whose server address is not empty after stripping, the
  options hold the stripped address under \<^verbatim>\<open>server\<close>, and hold the stripped port under
  \<^verbatim>\<open>port\<close> exactly when that port is not empty after stripping: an empty port is left
  out, no default is filled in. When the address strips to the empty string, neither
  \<^verbatim>\<open>server\<close> nor \<^verbatim>\<open>port\<close> is set. These are the options of every launch that starts a
  process.
\<close>

theorem server_options:
  "(strip (server_ip_var u) \<noteq> [] \<longrightarrow>
      server (build_options u n) = Some (strip (server_ip_var u))
      \<and> port (build_options u n) =
          (if strip (server_port_var u) \<noteq> [] then Some (strip (server_port_var u)) else None))
   \<and> (strip (server_ip_var u) = [] \<longrightarrow>
      server (build_options u n) = None \<and> port (build_options u n) = None)
   \<and> (\<forall>st e r. snd (launch_minecraft st u e) = Inr r \<longrightarrow>
         launch_options r = build_options u (strip (username_var u)))"
proof -
  have "launch_options r = build_options u (strip (username_var u))"
    if "snd (launch_minecraft st u e) = Inr r" for st e r
    using launch_minecraft_Inr [OF that] by simp
  then show ?thesis
    by (simp add: build_options_def Let_def)
qed

theorem server_options_witness:
  "strip (server_ip_var server_request) \<noteq> []
   \<and> server (build_options server_request ''Steve'') = Some ''play.example.com''
   \<and> port (build_options server_request ''Steve'') = None
   \<and> server_ip_var spaces_request \<noteq> []
   \<and> strip (server_ip_var spaces_request) = []
   \<and> server (build_options spaces_request ''Steve'') = None
   \<and> port (build_options spaces_request ''Steve'') = None
   \<and> launch_options (projr (snd (launch_minecraft fresh_launcher server_request
         (env_of [''1.20.1''] accept_command)))) = build_options server_request ''Steve''"
proof -
  have sp: "server_ip_var spaces_request \<noteq> []" "strip (server_ip_var spaces_request) = []"
    by (simp_all add: spaces_request_def steve_request_def string_eval)
  have ok: "snd (launch_minecraft fresh_launcher server_request (env_of [''1.20.1''] accept_command))
      = Inr (projr (snd (launch_minecraft fresh_launcher server_request
                           (env_of [''1.20.1''] accept_command))))"
    by (simp add: launch_ok_eval server_request_eval)
  show ?thesis
    using server_options [of server_request "''Steve''"]
      server_options [of spaces_request "''Steve''"] ok sp
    by (simp add: server_request_eval)
qed

text \<open>
  The request for \<^verbatim>\<open>play.example.com\<close> with an empty port is launched with no port
  among its options, not with 25565.
\<close>

theorem empty_port_is_not_defaulted:
  "\<not> isl (snd (launch_minecraft fresh_launcher server_request (env_of [''1.20.1''] accept_command)))
   \<and> server (launch_options (projr (snd (launch_minecraft fresh_launcher server_request
         (env_of [''1.20.1''] accept_command))))) = Some ''play.example.com''
   \<and> port (launch_options (projr (snd (launch_minecraft fresh_launcher server_request
         (env_of [''1.20.1''] accept_command))))) = None
   \<and> port (launch_options (projr (snd (launch_minecraft fresh_launcher server_request
         (env_of [''1.20.1''] accept_command))))) \<noteq> Some ''25565''"
  by (simp add: launch_ok_eval server_request_eval build_options_def Let_def)

section \<open>The recent versions and the statistics\<close>

lemma count_list_drop_le: "count_list (drop n xs) v \<le> count_list xs v"
proof (induction xs arbitrary: n)
  case Nil
  show ?case by simp
next
  case (Cons x xs)
  show ?case
  proof (cases n)
    case 0
    then show ?thesis by simp
  next
    case (Suc m)
    then show ?thesis
      using Cons.IH [of m] by simp
  qed
qed

lemma count_list_remove1: "v \<in> set xs \<Longrightarrow> Suc (count_list (remove1 v xs) v) = count_list xs v"
  by (induction xs) auto

lemma add_recent_eq: "add_recent v rv = last10 (remove1 v rv @ [v])"
  by (simp add: add_recent_def remove1_idem)

text \<open>
  Claim C9, amended. An update moves the launched version to the end: the new list is the
  end piece, of at most ten elements, of the old list with the first occurrence of the
  version taken out and the version appended. So it has at most ten elements and ends with
  the version just launched; with at most ten elements before, launching a version of the
  list keeps the length and the set of entries, and launching a new version of a list of
  fewer than ten appends it. If the list had no duplicate before the update it has none
  after it, and launching a version of the list never raises the number of its
  occurrences. What \<^verbatim>\<open>save_settings\<close> stores is the last ten elements of the list.
\<close>

theorem recent_versions_update:
  "length (add_recent v rv) = min 10 (Suc (length (remove1 v rv)))
   \<and> (\<exists>ys. remove1 v rv @ [v] = ys @ add_recent v rv)
   \<and> length (add_recent v rv) \<le> 10
   \<and> add_recent v rv \<noteq> []
   \<and> last (add_recent v rv) = v
   \<and> (distinct rv \<longrightarrow> distinct (add_recent v rv))
   \<and> (v \<in> set rv \<longrightarrow> count_list (add_recent v rv) v \<le> count_list rv v)
   \<and> (v \<in> set rv \<and> length rv \<le> 10 \<longrightarrow>
        add_recent v rv = remove1 v rv @ [v]
        \<and> length (add_recent v rv) = length rv \<and> set (add_recent v rv) = set rv)
   \<and> (v \<notin> set rv \<and> length rv < 10 \<longrightarrow> add_recent v rv = rv @ [v])
   \<and> settings (save_settings st) ''recent_versions''
       = Some (JList (map JStr (last10 (recent_versions st))))"
proof -
  let ?xs = "remove1 v rv @ [v]"
  have eq: "add_recent v rv = last10 ?xs" by (rule add_recent_eq)
  have ne: "?xs \<noteq> []" by simp
  have c1: "length (add_recent v rv) = min 10 (Suc (length (remove1 v rv)))"
    by (simp add: eq last10_def)
  have "?xs = take (length ?xs - 10) ?xs @ add_recent v rv"
    unfolding eq last10_def by (simp only: append_take_drop_id)
  then have c2: "\<exists>ys. remove1 v rv @ [v] = ys @ add_recent v rv" ..
  have c3: "length (add_recent v rv) \<le> 10"
    unfolding eq by (rule length_last10)
  have c4: "add_recent v rv \<noteq> []"
    unfolding eq using ne by (rule last10_nonempty)
  have c5: "last (add_recent v rv) = v"
    unfolding eq using last_last10 [OF ne] by simp
  have c6: "distinct (add_recent v rv)" if "distinct rv"
  proof -
    have "distinct ?xs" using that by simp
    then show ?thesis unfolding eq by (rule distinct_last10)
  qed
  have c7: "count_list (add_recent v rv) v \<le> count_list rv v" if "v \<in> set rv"
  proof -
    have "count_list ?xs v = count_list rv v"
      using count_list_remove1 [OF that] by simp
    then show ?thesis
      unfolding eq last10_def using count_list_drop_le [of "length ?xs - 10" ?xs v] by simp
  qed
  have c8: "add_recent v rv = remove1 v rv @ [v]
        \<and> length (add_recent v rv) = length rv \<and> set (add_recent v rv) = set rv"
    if "v \<in> set rv" and "length rv \<le> 10"
  proof -
    have len: "length ?xs = length rv"
      using that(1) length_pos_if_in_set [OF that(1)] by (simp add: length_remove1)
    then have a: "add_recent v rv = ?xs"
      using that(2) by (simp add: eq last10_def)
    have "x \<in> set ?xs" if "x \<in> set rv" for x
      using that by (cases "x = v") (simp_all add: in_set_remove1)
    moreover have "x \<in> set rv" if "x \<in> set ?xs" for x
      using that \<open>v \<in> set rv\<close> set_remove1_subset [of v rv] by auto
    ultimately have "set ?xs = set rv" by blast
    with a len show ?thesis by simp
  qed
  have c9: "add_recent v rv = rv @ [v]" if "v \<notin> set rv" and "length rv < 10"
    using that by (simp add: eq last10_def remove1_idem)
  have c10: "settings (save_settings st) ''recent_versions''
       = Some (JList (map JStr (last10 (recent_versions st))))"
    by (simp add: settings_save_settings saved_keys_recent)
  show ?thesis
    using c1 c2 c3 c4 c5 c6 c7 c8 c9 c10 by blast
qed

theorem recent_versions_update_witness:
  "distinct [''1.19'', ''1.20.1'', ''1.21'']
   \<and> ''1.20.1'' \<in> set [''1.19'', ''1.20.1'', ''1.21'']
   \<and> length [''1.19'', ''1.20.1'', ''1.21''] \<le> 10
   \<and> add_recent ''1.20.1'' [''1.19'', ''1.20.1'', ''1.21''] = [''1.19'', ''1.21'', ''1.20.1'']
   \<and> distinct (add_recent ''1.20.1'' [''1.19'', ''1.20.1'', ''1.21''])
   \<and> ''1.18'' \<notin> set [''1.19'', ''1.20.1'', ''1.21'']
   \<and> add_recent ''1.18'' [''1.19'', ''1.20.1'', ''1.21''] = [''1.19'', ''1.20.1'', ''1.21'', ''1.18'']"
  using recent_versions_update [of "''1.20.1''" "[''1.19'', ''1.20.1'', ''1.21'']"]
    recent_versions_update [of "''1.18''" "[''1.19'', ''1.20.1'', ''1.21'']"]
  by simp

text \<open>
  A list read from a settings file that held 1.20.1 twice (nothing removes duplicates when
  the list is read) still holds it twice after 1.20.1 is launched.
\<close>

theorem duplicates_in_file_are_kept:
  "recent_versions duplicated_launcher = [''1.20.1'', ''1.20.1'']
   \<and> \<not> isl (snd (launch_minecraft duplicated_launcher steve_request
                 (env_of [''1.20.1''] accept_command)))
   \<and> recent_versions (fst (launch_minecraft duplicated_launcher steve_request
         (env_of [''1.20.1''] accept_command))) = [''1.20.1'', ''1.20.1'']
   \<and> \<not> distinct (recent_versions (fst (launch_minecraft duplicated_launcher steve_request
         (env_of [''1.20.1''] accept_command))))"
proof -
  have r: "recent_versions duplicated_launcher = [''1.20.1'', ''1.20.1'']"
    by (simp add: duplicated_launcher_def)
  have lv: "launch_version_of {''1.20.1''} ''fabric'' ''1.20.1'' = ''1.20.1''"
    by (simp add: launch_version_of_def possible_versions_def)
  have "recent_versions (fst (launch_minecraft duplicated_launcher steve_request
         (env_of [''1.20.1''] accept_command))) = [''1.20.1'', ''1.20.1'']"
    by (subst launch_minecraft_recent_versions)
       (simp_all add: steve_request_eval env_of_eval lv r add_recent_def last10_def)
  then show ?thesis
    by (simp add: r launch_ok_eval steve_request_eval)
qed

text \<open>
  Claim C7, amended. A request that fails validation leaves the whole launcher state as it
  was. A request refused at the installed check leaves the list of recent versions as it
  was. Once the installed check has passed, the list of recent versions is updated, before
  the backend is asked for the command; so it is updated whatever the backend and the
  process start answer. Every failing launch of a validated request leaves the settings
  document, in memory and on disk, exactly as the save before the launch wrote it, with the
  list of recent versions as it was before the update: the statistics block runs only once
  the process has started.
\<close>

theorem tracker_update_points:
  "(\<not> passes_validation u \<longrightarrow> fst (launch_minecraft st u e) = st)
   \<and> (passes_validation u \<and> strip (version_var u) \<notin> installed e \<longrightarrow>
        recent_versions (fst (launch_minecraft st u e)) = recent_versions st)
   \<and> (passes_validation u \<and> strip (version_var u) \<in> installed e \<longrightarrow>
        recent_versions (fst (launch_minecraft st u e)) =
          add_recent (launch_version_of (installed e) (mod_loader_var u) (strip (version_var u)))
            (recent_versions st))
   \<and> (passes_validation u \<and> isl (snd (launch_minecraft st u e)) \<longrightarrow>
        settings (fst (launch_minecraft st u e)) = settings (save_settings_ui st u)
        \<and> files (fst (launch_minecraft st u e)) = files (save_settings_ui st u)
        \<and> files (fst (launch_minecraft st u e)) settings_file
            = Some (settings (fst (launch_minecraft st u e)))
        \<and> settings (fst (launch_minecraft st u e)) ''recent_versions''
            = Some (JList (map JStr (last10 (recent_versions st)))))"
proof (cases "passes_validation u")
  case False
  then show ?thesis
    by (simp add: launch_minecraft_not_validated)
next
  case True
  let ?st1 = "save_settings_ui st u"
  let ?r = "launch ?st1 u e (strip (version_var u)) (strip (username_var u))"
  have lm: "launch_minecraft st u e = ?r"
    using True by (rule launch_minecraft_validated)
  have rec: "recent_versions (fst ?r) =
     (if strip (version_var u) \<in> installed e
      then add_recent (launch_version_of (installed e) (mod_loader_var u) (strip (version_var u)))
             (recent_versions st)
      else recent_versions st)"
    by (simp add: launch_recent_versions recent_versions_save_settings_ui)
  have fail: "settings (fst ?r) = settings ?st1 \<and> files (fst ?r) = files ?st1" if "isl (snd ?r)"
  proof -
    from that obtain err where "snd ?r = Inl err"
      by (cases "snd ?r") simp_all
    then show ?thesis by (rule launch_Inl_settings)
  qed
  show ?thesis
    using True rec fail
    by (simp add: lm files_save_settings_ui settings_save_settings_ui_recent)
qed

theorem tracker_update_points_witness:
  "fst (launch_minecraft fresh_launcher blank_request (env_of [''1.20.1''] accept_command))
     = fresh_launcher
   \<and> recent_versions (fst (launch_minecraft fresh_launcher steve_request
        (env_of [] accept_command))) = []
   \<and> recent_versions (fst (launch_minecraft fresh_launcher steve_request
        (env_of [''1.20.1''] accept_command))) = [''1.20.1'']
   \<and> files (fst (launch_minecraft fresh_launcher steve_request (env_of [] accept_command)))
        settings_file
      = Some (settings (save_settings_ui fresh_launcher steve_request))"
proof -
  have b: "\<not> passes_validation blank_request"
    by (simp add: passes_validation_def blank_request_def steve_request_def string_eval)
  have r: "recent_versions fresh_launcher = []"
    by (simp add: fresh_launcher_def)
  have lv: "launch_version_of {''1.20.1''} ''fabric'' ''1.20.1'' = ''1.20.1''"
    by (simp add: launch_version_of_def possible_versions_def)
  have f: "isl (snd (launch_minecraft fresh_launcher steve_request (env_of [] accept_command)))"
    by (simp add: launch_minecraft_validated steve_request_eval launch_not_installed env_of_eval)
  show ?thesis
    using tracker_update_points
            [of blank_request fresh_launcher "env_of [''1.20.1''] accept_command"]
          tracker_update_points [of steve_request fresh_launcher "env_of [] accept_command"]
          tracker_update_points
            [of steve_request fresh_launcher "env_of [''1.20.1''] accept_command"]
    by (simp add: b r lv f steve_request_eval env_of_eval add_recent_def last10_def
          files_save_settings_ui)
qed

text \<open>
  When the backend does not know the version, the launch fails, and the version is in the
  list of recent versions all the same.
\<close>

theorem failed_command_still_recorded:
  "snd (launch_minecraft fresh_launcher steve_request (env_of [''1.20.1''] reject_command))
     = Inl (VersionNotFoundError ''1.20.1'')
   \<and> recent_versions fresh_launcher = []
   \<and> recent_versions (fst (launch_minecraft fresh_launcher steve_request
        (env_of [''1.20.1''] reject_command))) = [''1.20.1'']"
proof -
  have lv: "launch_version_of {''1.20.1''} ''fabric'' ''1.20.1'' = ''1.20.1''"
    by (simp add: launch_version_of_def possible_versions_def)
  have r: "recent_versions fresh_launcher = []"
    by (simp add: fresh_launcher_def)
  have "launch_minecraft fresh_launcher steve_request (env_of [''1.20.1''] reject_command) =
     ((save_settings_ui fresh_launcher steve_request)\<lparr>recent_versions := [''1.20.1'']\<rparr>,
      Inl (VersionNotFoundError ''1.20.1''))"
    by (simp add: launch_minecraft_validated steve_request_eval launch_backend_failure
          env_of_eval reject_command_def lv recent_versions_save_settings_ui r
          add_recent_def last10_def)
  then show ?thesis
    by (simp add: r)
qed

section \<open>The settings document\<close>

text \<open>
  Claim C10. After \<^verbatim>\<open>save_settings\<close> the settings document has exactly the fourteen keys
  the function lists, and that document is what \<^verbatim>\<open>launcher_settings.json\<close> holds. Any
  other key is gone: \<^verbatim>\<open>statistics\<close>, \<^verbatim>\<open>profiles\<close>, \<^verbatim>\<open>saved_servers\<close>,
  \<^verbatim>\<open>disabled_mods\<close>, \<^verbatim>\<open>enabled_resourcepacks\<close> and \<^verbatim>\<open>current_profile\<close> among them,
  whatever the document held before the call.
\<close>

theorem save_settings_fourteen_keys:
  "dom (settings (save_settings st)) =
     {''selected_version'', ''selected_mod_loader'', ''java_path'', ''allocated_ram'',
      ''username'', ''window_width'', ''window_height'', ''fullscreen'', ''custom_jvm_args'',
      ''server_ip'', ''server_port'', ''favorite_versions'', ''recent_versions'', ''theme''}
   \<and> files (save_settings st) settings_file = Some (settings (save_settings st))
   \<and> settings (save_settings st) ''statistics'' = None
   \<and> settings (save_settings st) ''profiles'' = None
   \<and> settings (save_settings st) ''saved_servers'' = None
   \<and> settings (save_settings st) ''disabled_mods'' = None
   \<and> settings (save_settings st) ''enabled_resourcepacks'' = None
   \<and> settings (save_settings st) ''current_profile'' = None
   \<and> save_settings (st\<lparr>settings := s\<rparr>) = save_settings st"
  by (simp add: settings_save_settings files_save_settings dom_saved_keys
        save_settings_settings_update) (simp add: saved_keys_def)

theorem save_settings_fourteen_keys_witness:
  "settings fresh_launcher ''statistics'' = Some initial_statistics
   \<and> settings (save_settings fresh_launcher) ''statistics'' = None
   \<and> files (save_settings fresh_launcher) settings_file
       = Some (settings (save_settings fresh_launcher))"
  using save_settings_fourteen_keys [of fresh_launcher]
  by (simp add: fresh_launcher_def)

text \<open>
  Claim C8. Importing a settings file that holds a key the launcher does not know: the
  known key is taken over, the unknown key is in neither the settings in memory nor
  \<^verbatim>\<open>launcher_settings.json\<close> afterwards. Exporting writes the settings document as it is,
  with every key it holds at that moment.
\<close>

theorem import_drops_unknown_keys:
  "custom_document ''custom_key'' = Some (JInt 1)
   \<and> settings (import_settings fresh_launcher (Some custom_document) ''java'') ''custom_key'' = None
   \<and> settings (import_settings fresh_launcher (Some custom_document) ''java'') ''username''
       = Some (JStr ''Alex'')
   \<and> files (import_settings fresh_launcher (Some custom_document) ''java'') settings_file
       = Some (settings (import_settings fresh_launcher (Some custom_document) ''java''))
   \<and> files (export_settings fresh_launcher ''backup.json'') ''backup.json''
       = Some (settings fresh_launcher)"
  by (simp add: import_settings_def export_settings_def Let_def settings_save_settings
        files_save_settings saved_keys_def get_or_def custom_document_def)

end
